theory Spec2Isabelle
  imports Main
begin

section \<open>Data model of the agent (agent.go)\<close>

text \<open>
  A Go \<^verbatim>\<open>error\<close> value is identified with the text of its \<^verbatim>\<open>Error()\<close> method;
  \<^verbatim>\<open>nil\<close> is \<open>None\<close>. A Go function returning \<^verbatim>\<open>(v, err)\<close> is modelled as
  returning the pair as it is, since the code of the agent only ever inspects the
  \<^verbatim>\<open>err\<close> component. A pointer that may be \<^verbatim>\<open>nil\<close> is an \<open>option\<close>.
\<close>

type_synonym err = string

text \<open>
  \<^verbatim>\<open>net.IPNet\<close> (Go standard library): an address and a mask, both byte slices.
\<close>

datatype IPNet = IPNet (ipnet_IP: "nat list") (ipnet_Mask: "nat list")

text \<open>
  The \<^verbatim>\<open>Request\<close> literal of line 77 sets the single field \<^verbatim>\<open>PubKey\<close>.
  The field is named \<open>reqPubKey\<close> here, \<^verbatim>\<open>PubKey\<close> being also a field of
  \<^verbatim>\<open>Response\<close>.
\<close>

record Request =
  reqPubKey :: string

text \<open>
  \<^verbatim>\<open>Response\<close>: the four fields that \<^verbatim>\<open>GetNewWgLease\<close> reads (lines 169-174).
\<close>

record Response =
  IP :: string
  AllowedIPs :: string
  PubKey :: string
  Endpoint :: string

definition zeroResponse :: Response where
  "zeroResponse = \<lparr>IP = [], AllowedIPs = [], PubKey = [], Endpoint = []\<rparr>"

text \<open>
  Modelled from the spec: \<^verbatim>\<open>wgtypes.PeerConfig\<close> is a type of the WireGuard control
  library. Section 3 of the specification gives its content: the peer's public key,
  the pre-shared key, the reachable endpoint and the allowed-IP prefixes.
\<close>

record PeerConfig =
  PublicKey :: string
  PresharedKey :: string
  PeerEndpoint :: string
  PeerAllowedIPs :: "string list"

definition zeroPeerConfig :: PeerConfig where
  "zeroPeerConfig = \<lparr>PublicKey = [], PresharedKey = [], PeerEndpoint = [], PeerAllowedIPs = []\<rparr>"

text \<open>
  \<^verbatim>\<open>http.Request\<close> and \<^verbatim>\<open>http.Response\<close>, reduced to what \<^verbatim>\<open>requestWgConfig\<close>
  touches. \<open>Body\<close> is what \<^verbatim>\<open>ioutil.ReadAll(resp.Body)\<close> returns: the bytes and the
  error.
\<close>

record http_request =
  Method :: string
  URL :: string
  Header :: "string \<rightharpoonup> string list"
  ReqBody :: string

record http_response =
  StatusCode :: int
  Status :: string
  Body :: "string \<times> err option"

text \<open>\<^verbatim>\<open>Header.Set\<close>: the key (here always in canonical form already) maps to the one value.\<close>

definition Header_Set :: "http_request \<Rightarrow> string \<Rightarrow> string \<Rightarrow> http_request" where
  "Header_Set req k v = req\<lparr>Header := (Header req)(k \<mapsto> [v])\<rparr>"

text \<open>The channel made by \<^verbatim>\<open>make(chan bool)\<close> on line 32.\<close>

datatype chan = MakeChan

text \<open>
  The \<^verbatim>\<open>Agent\<close> struct (lines 16-23). The handles are opaque addresses; \<open>None\<close> is
  \<^verbatim>\<open>nil\<close>, the zero value of a field that has not been assigned.
\<close>

record Agent =
  device :: string
  pubKey :: string
  privKey :: string
  netlinkHandle :: "nat option"
  stop :: "chan option"
  tundev :: "nat option"

section \<open>Effects: calls on the collaborators\<close>

text \<open>
  Every call that the agent makes on a collaborator outside \<^verbatim>\<open>agent.go\<close> is an
  event, appended to the list of calls made so far, in program order. \<open>Go_tundev_Run\<close>
  is the start of the background task of line 41, \<open>Log\<close> a line written by
  \<^verbatim>\<open>log.Printf\<close>, \<open>Call_Body_Close\<close> the deferred close of line 98.
\<close>

datatype event =
    Call_NewNetLinkHandle
  | Call_startTunDevice string chan
  | Go_tundev_Run "nat option"
  | Call_EnsureLinkUp string
  | Call_getKeys string
  | Call_GeneratePrivateKey
  | Call_setPrivateKey string string
  | Call_ParseIPNet string
  | Call_UpdateIP string "IPNet option"
  | Call_AddRoute string "IPNet option"
  | Call_client_Do http_request
  | Call_Body_Close
  | Call_newPeerConfig string string string "string list"
  | Log string

text \<open>
  The state threaded through the agent: the calls made so far and the state \<open>'w\<close> of
  everything outside the agent (kernel, key store, network, randomness).
\<close>

record 'w sys =
  calls :: "event list"
  world :: 'w

text \<open>
  The collaborators, as parameters. Those that act on the outside take its state and
  return the new one. The key returned by \<open>GeneratePrivateKey\<close> is given by its
  \<^verbatim>\<open>String()\<close>, the only use line 60 makes of it; \<open>IPNet_String\<close> is the
  \<^verbatim>\<open>%v\<close> rendering of a \<^verbatim>\<open>*net.IPNet\<close>.
\<close>

record 'w env =
  NewNetLinkHandle :: "'w \<Rightarrow> nat option \<times> 'w"
  startTunDevice :: "string \<Rightarrow> chan \<Rightarrow> 'w \<Rightarrow> (nat option \<times> err option) \<times> 'w"
  EnsureLinkUp :: "nat option \<Rightarrow> string \<Rightarrow> 'w \<Rightarrow> err option \<times> 'w"
  getKeys :: "string \<Rightarrow> 'w \<Rightarrow> (string \<times> string \<times> err option) \<times> 'w"
  GeneratePrivateKey :: "'w \<Rightarrow> (string \<times> err option) \<times> 'w"
  setPrivateKey :: "string \<Rightarrow> string \<Rightarrow> 'w \<Rightarrow> err option \<times> 'w"
  ParseIPNet :: "string \<Rightarrow> IPNet option \<times> err option"
  IPNet_String :: "IPNet option \<Rightarrow> string"
  UpdateIP :: "nat option \<Rightarrow> string \<Rightarrow> IPNet option \<Rightarrow> 'w \<Rightarrow> err option \<times> 'w"
  AddRoute :: "nat option \<Rightarrow> string \<Rightarrow> IPNet option \<Rightarrow> 'w \<Rightarrow> err option \<times> 'w"
  json_Marshal :: "Request \<Rightarrow> string \<times> err option"
  http_NewRequest :: "string \<Rightarrow> string \<Rightarrow> string \<Rightarrow> http_request option \<times> err option"
  client_Do :: "http_request \<Rightarrow> 'w \<Rightarrow> (http_response option \<times> err option) \<times> 'w"
  json_Unmarshal :: "string \<Rightarrow> Response \<Rightarrow> Response \<times> err option"
  newPeerConfig ::
    "string \<Rightarrow> string \<Rightarrow> string \<Rightarrow> string list \<Rightarrow> 'w \<Rightarrow> (PeerConfig option \<times> err option) \<times> 'w"

definition emit :: "event \<Rightarrow> 'w sys \<Rightarrow> 'w sys" where
  "emit e s = s\<lparr>calls := calls s @ [e]\<rparr>"

definition call :: "event \<Rightarrow> ('w \<Rightarrow> 'r \<times> 'w) \<Rightarrow> 'w sys \<Rightarrow> 'r \<times> 'w sys" where
  "call e f s = (fst (f (world s)), \<lparr>calls = calls s @ [e], world = snd (f (world s))\<rparr>)"

text \<open>A function either returns or panics (a nil pointer dereference).\<close>

datatype 'a outcome = Panicked | Returned 'a

section \<open>The agent\<close>

definition sentinel :: string where
  "sentinel = ''AAAAAAAAAAAAAAAAAAAAAAAAAAAAAAAAAAAAAAAAAAA=''"

text \<open>\<^verbatim>\<open>SetPrivKey\<close>, lines 120-122.\<close>

definition SetPrivKey :: "'w env \<Rightarrow> Agent \<Rightarrow> 'w sys \<Rightarrow> err option \<times> 'w sys" where
  "SetPrivKey env a s =
     call (Call_setPrivateKey (device a) (privKey a)) (setPrivateKey env (device a) (privKey a)) s"

text \<open>
  Lines 48-72 of \<^verbatim>\<open>NewAgent\<close>: read the keys, generate and install a private key
  when the one read is the empty key, read the keys again and keep them.
\<close>

definition NewAgent_keys ::
  "'w env \<Rightarrow> string \<Rightarrow> Agent \<Rightarrow> 'w sys \<Rightarrow> (Agent \<times> err option) \<times> 'w sys" where
  "NewAgent_keys env deviceName a s =
     (case call (Call_getKeys deviceName) (getKeys env deviceName) s of
        ((pub0, privKey0, Some err), s1) \<Rightarrow>
          ((a, Some (''Cannot get keys for device: '' @ deviceName @ '': '' @ err)), s1)
      | ((pub0, privKey0, None), s1) \<Rightarrow>
          (case
             (if privKey0 = sentinel then
                (case call Call_GeneratePrivateKey (GeneratePrivateKey env) s1 of
                   ((newKey, Some err), s2) \<Rightarrow> (a, Some err, s2)
                 | ((newKey, None), s2) \<Rightarrow>
                     (case SetPrivKey env (a\<lparr>privKey := newKey\<rparr>) s2 of
                        (Some err, s3) \<Rightarrow> (a\<lparr>privKey := newKey\<rparr>, Some err, s3)
                      | (None, s3) \<Rightarrow> (a\<lparr>privKey := newKey\<rparr>, None, s3)))
              else (a, None, s1))
           of
             (a1, Some err, s2) \<Rightarrow> ((a1, Some err), s2)
           | (a1, None, s2) \<Rightarrow>
               (case call (Call_getKeys deviceName) (getKeys env deviceName) s2 of
                  ((pub, priv, err), s3) \<Rightarrow> ((a1\<lparr>pubKey := pub, privKey := priv\<rparr>, err), s3))))"

text \<open>\<^verbatim>\<open>NewAgent\<close>, lines 26-73.\<close>

definition NewAgent :: "'w env \<Rightarrow> string \<Rightarrow> 'w sys \<Rightarrow> (Agent \<times> err option) \<times> 'w sys" where
  "NewAgent env deviceName s =
     (case call Call_NewNetLinkHandle (NewNetLinkHandle env) s of
        (h, s0) \<Rightarrow>
          (let a = \<lparr>device = deviceName, pubKey = [], privKey = [], netlinkHandle = h,
                    stop = None, tundev = None\<rparr>
           in
             (case call (Call_startTunDevice deviceName MakeChan)
                     (startTunDevice env deviceName MakeChan) s0 of
                ((td, Some err), s1) \<Rightarrow>
                  ((a, Some (''Error starting wg device: '' @ deviceName @ '': '' @ err)), s1)
              | ((td, None), s1) \<Rightarrow>
                  (let a' = a\<lparr>stop := Some MakeChan, tundev := td\<rparr>;
                       s2 = emit (Go_tundev_Run td) s1
                   in
                     (case call (Call_EnsureLinkUp deviceName)
                             (EnsureLinkUp env (netlinkHandle a') deviceName) s2 of
                        (Some err, s3) \<Rightarrow> ((a', Some err), s3)
                      | (None, s3) \<Rightarrow> NewAgent_keys env deviceName a' s3)))))"

text \<open>
  \<^verbatim>\<open>requestWgConfig\<close>, lines 75-118. The error of \<^verbatim>\<open>http.NewRequest\<close> is
  assigned and never read: \<^verbatim>\<open>req.Header.Set\<close> follows at once, and dereferences
  \<^verbatim>\<open>req\<close>. Line 98 dereferences \<^verbatim>\<open>resp\<close>. The deferred close runs at every
  return after line 98.
\<close>

definition requestWgConfig ::
  "'w env \<Rightarrow> Agent \<Rightarrow> string \<Rightarrow> string \<Rightarrow> 'w sys \<Rightarrow> (Response \<times> err option) outcome \<times> 'w sys" where
  "requestWgConfig env a serverUrl token s =
     (case json_Marshal env \<lparr>reqPubKey = pubKey a\<rparr> of
        (r, Some err) \<Rightarrow> (Returned (zeroResponse, Some err), s)
      | (r, None) \<Rightarrow>
          (case http_NewRequest env ''POST'' (serverUrl @ ''/newPeerLease'') r of
             (None, err) \<Rightarrow> (Panicked, s)
           | (Some req0, err) \<Rightarrow>
               (let req1 = Header_Set req0 ''Content-Type'' ''application/json'';
                    bearer = ''Bearer '' @ token;
                    req = Header_Set req1 ''Authorization'' bearer
                in
                  (case call (Call_client_Do req) (client_Do env req) s of
                     ((resp, Some err), s1) \<Rightarrow> (Returned (zeroResponse, Some err), s1)
                   | ((None, None), s1) \<Rightarrow> (Panicked, s1)
                   | ((Some resp, None), s1) \<Rightarrow>
                       (let s2 = emit Call_Body_Close s1 in
                          if StatusCode resp \<noteq> 200 then
                            (Returned (zeroResponse, Some (''Response status: '' @ Status resp)), s2)
                          else
                            (case Body resp of
                               (body, Some err) \<Rightarrow>
                                 (Returned (zeroResponse,
                                    Some (''error reading response body: '' @ err @ '','')), s2)
                             | (body, None) \<Rightarrow>
                                 (case json_Unmarshal env body zeroResponse of
                                    (response, Some err) \<Rightarrow> (Returned (response, Some err), s2)
                                  | (response, None) \<Rightarrow> (Returned (response, None), s2))))))))"

text \<open>\<^verbatim>\<open>addIpToDev\<close>, lines 124-138.\<close>

definition addIpToDev :: "'w env \<Rightarrow> Agent \<Rightarrow> string \<Rightarrow> 'w sys \<Rightarrow> err option \<times> 'w sys" where
  "addIpToDev env a ip s =
     (let s1 = emit (Call_ParseIPNet ip) s in
        (case ParseIPNet env ip of
           (devIP, Some err) \<Rightarrow> (Some (''Cannot parse offered ip net: '' @ err), s1)
         | (devIP, None) \<Rightarrow>
             (let s2 = emit (Log (''Configuring offered ip: '' @ IPNet_String env devIP @
                                   '' on dev: '' @ device a @ [CHR 0x0A])) s1
              in
                (case call (Call_UpdateIP (device a) devIP)
                        (UpdateIP env (netlinkHandle a) (device a) devIP) s2 of
                   (Some err, s3) \<Rightarrow> (Some err, s3)
                 | (None, s3) \<Rightarrow> (None, s3)))))"

text \<open>\<^verbatim>\<open>addRoutesForAllowedIps\<close>, lines 140-158: the loop is a recursion on the list.\<close>

fun addRoutesForAllowedIps ::
  "'w env \<Rightarrow> Agent \<Rightarrow> string list \<Rightarrow> 'w sys \<Rightarrow> err option \<times> 'w sys" where
  "addRoutesForAllowedIps env a [] s = (None, s)"
| "addRoutesForAllowedIps env a (aip # rest) s =
     (let s1 = emit (Call_ParseIPNet aip) s in
        (case ParseIPNet env aip of
           (dst, Some err) \<Rightarrow> (Some (''Cannot parse ip: '' @ aip @ '': '' @ err), s1)
         | (dst, None) \<Rightarrow>
             (let s2 = emit (Log (''Adding route: '' @ IPNet_String env dst @
                                   '' on dev '' @ device a @ [CHR 0x0A])) s1
              in
                (case call (Call_AddRoute (device a) dst)
                        (AddRoute env (netlinkHandle a) (device a) dst) s2 of
                   (Some err, s3) \<Rightarrow>
                     (Some (''Eror adding route '' @ IPNet_String env dst @ '' via '' @
                            device a @ '': '' @ err), s3)
                 | (None, s3) \<Rightarrow> addRoutesForAllowedIps env a rest s3))))"

text \<open>
  \<^verbatim>\<open>strings.Split(s, sep)\<close> of the Go library for a separator of one byte, the
  case of line 173: the pieces of \<open>s\<close> between the separators, in order; the empty
  string gives one empty piece.
\<close>

fun strings_Split :: "string \<Rightarrow> char \<Rightarrow> string list" where
  "strings_Split [] sep = [[]]"
| "strings_Split (c # cs) sep =
     (if c = sep then [] # strings_Split cs sep
      else (case strings_Split cs sep of
              [] \<Rightarrow> [[c]]
            | p # ps \<Rightarrow> (c # p) # ps))"

text \<open>\<^verbatim>\<open>GetNewWgLease\<close>, lines 163-180.\<close>

definition GetNewWgLease ::
  "'w env \<Rightarrow> Agent \<Rightarrow> string \<Rightarrow> string \<Rightarrow> 'w sys \<Rightarrow>
     (PeerConfig option \<times> string list \<times> err option) outcome \<times> 'w sys" where
  "GetNewWgLease env a serverUrl token s =
     (case requestWgConfig env a serverUrl token s of
        (Panicked, s1) \<Rightarrow> (Panicked, s1)
      | (Returned (resp, Some err), s1) \<Rightarrow> (Returned (Some zeroPeerConfig, [], Some err), s1)
      | (Returned (resp, None), s1) \<Rightarrow>
          (case addIpToDev env a (IP resp) s1 of
             (Some err, s2) \<Rightarrow> (Returned (Some zeroPeerConfig, [], Some err), s2)
           | (None, s2) \<Rightarrow>
               (let allowed_ips = strings_Split (AllowedIPs resp) (CHR '','') in
                  (case call (Call_newPeerConfig (PubKey resp) [] (Endpoint resp) allowed_ips)
                          (newPeerConfig env (PubKey resp) [] (Endpoint resp) allowed_ips) s2 of
                     ((peer, Some err), s3) \<Rightarrow> (Returned (Some zeroPeerConfig, [], Some err), s3)
                   | ((peer, None), s3) \<Rightarrow> (Returned (peer, allowed_ips, None), s3)))))"

section \<open>Auxiliary functions for the statements\<close>

text \<open>Recognisers of the calls that change the link state.\<close>

fun is_Call_AddRoute :: "event \<Rightarrow> bool" where
  "is_Call_AddRoute (Call_AddRoute d n) = True"
| "is_Call_AddRoute e = False"

fun is_Call_UpdateIP :: "event \<Rightarrow> bool" where
  "is_Call_UpdateIP (Call_UpdateIP d n) = True"
| "is_Call_UpdateIP e = False"

text \<open>\<^verbatim>\<open>strings.Join\<close> for a separator of one byte.\<close>

fun strings_Join :: "string list \<Rightarrow> char \<Rightarrow> string" where
  "strings_Join [] sep = []"
| "strings_Join [p] sep = p"
| "strings_Join (p # q # ps) sep = p @ sep # strings_Join (q # ps) sep"

section \<open>A test double for the collaborators\<close>

text \<open>
  Modelled from the spec: the collaborators of the agent (device lifecycle, key
  store, link and route manipulation, the lease server, \<^verbatim>\<open>newPeerConfig\<close>) are
  not part of \<^verbatim>\<open>agent.go\<close>. Sections 4.4, 4.5 and 6 of the specification give
  their contracts, and section 9 asks for fake implementations behind which the
  orchestration can be exercised. \<open>fake_env\<close> is such a fake, over a small explicit
  state: one key slot, the addresses and routes installed, the links brought up,
  and the reply that the lease server will give. The theorems below hold for every
  environment; the fake only serves to run them on concrete inputs.
\<close>

record fake_world =
  stored_key :: string
  generated_key :: string
  start_error :: "err option"
  addresses :: "(string \<times> IPNet option) list"
  routes :: "(string \<times> IPNet option) list"
  links_up :: "string list"
  server_reply :: "http_response option \<times> err option"

definition fake_nets :: "(string \<times> IPNet) list" where
  "fake_nets =
     [(''10.0.0.5/32'', IPNet [10, 0, 0, 5] [255, 255, 255, 255]),
      (''10.0.1.0/24'', IPNet [10, 0, 1, 0] [255, 255, 255, 0]),
      (''10.0.2.0/24'', IPNet [10, 0, 2, 0] [255, 255, 255, 0])]"

definition fake_ParseIPNet :: "string \<Rightarrow> IPNet option \<times> err option" where
  "fake_ParseIPNet s =
     (case map_of fake_nets s of
        Some n \<Rightarrow> (Some n, None)
      | None \<Rightarrow> (None, Some (''invalid CIDR address: '' @ s)))"

definition fake_IPNet_String :: "IPNet option \<Rightarrow> string" where
  "fake_IPNet_String n =
     (case n of
        None \<Rightarrow> ''<nil>''
      | Some m \<Rightarrow> (case map_of (map (\<lambda>(s, k). (k, s)) fake_nets) m of
                    Some s \<Rightarrow> s
                  | None \<Rightarrow> ''?''))"

definition lease_body :: string where
  \<open>lease_body =
     ''{"IP":"10.0.0.5/32","AllowedIPs":"10.0.1.0/24,10.0.2.0/24","PubKey":"abc=","Endpoint":"1.2.3.4:51820"}''\<close>

definition lease_response :: Response where
  "lease_response =
     \<lparr>IP = ''10.0.0.5/32'', AllowedIPs = ''10.0.1.0/24,10.0.2.0/24'',
      PubKey = ''abc='', Endpoint = ''1.2.3.4:51820''\<rparr>"

definition fake_Marshal :: "Request \<Rightarrow> string \<times> err option" where
  \<open>fake_Marshal r = (''{"pubKey":"'' @ reqPubKey r @ ''"}'', None)\<close>

text \<open>A second lease, with an empty entry, blanks and a trailing comma in its allowed IPs.\<close>

definition lease_body_gaps :: string where
  \<open>lease_body_gaps =
     ''{"IP":"10.0.0.5/32","AllowedIPs":"10.0.1.0/24,, 10.0.2.0/24 ,","PubKey":"abc=","Endpoint":""}''\<close>

definition lease_response_gaps :: Response where
  "lease_response_gaps =
     \<lparr>IP = ''10.0.0.5/32'', AllowedIPs = ''10.0.1.0/24,, 10.0.2.0/24 ,'',
      PubKey = ''abc='', Endpoint = []\<rparr>"

definition fake_Unmarshal :: "string \<Rightarrow> Response \<Rightarrow> Response \<times> err option" where
  "fake_Unmarshal body z =
     (if body = lease_body then (lease_response, None)
      else if body = lease_body_gaps then (lease_response_gaps, None)
      else (z, Some ''invalid character''))"

text \<open>A URL with a line feed in it is refused, as \<^verbatim>\<open>url.Parse\<close> refuses control characters.\<close>

definition fake_NewRequest :: "string \<Rightarrow> string \<Rightarrow> string \<Rightarrow> http_request option \<times> err option" where
  "fake_NewRequest m u b =
     (if CHR 0x0A \<in> set u then (None, Some ''net/url: invalid control character in URL'')
      else (Some \<lparr>Method = m, URL = u, Header = Map.empty, ReqBody = b\<rparr>, None))"

definition fake_env :: "fake_world env" where
  "fake_env =
     \<lparr>NewNetLinkHandle = (\<lambda>w. (Some 1, w)),
      startTunDevice = (\<lambda>d c w.
        ((if start_error w = None then Some 2 else None, start_error w), w)),
      EnsureLinkUp = (\<lambda>h d w. (None, w\<lparr>links_up := d # links_up w\<rparr>)),
      getKeys = (\<lambda>d w. ((''pub-of-'' @ stored_key w, stored_key w, None), w)),
      GeneratePrivateKey = (\<lambda>w.
        (if generated_key w = sentinel then ([], Some ''failed to read random bytes'')
         else (generated_key w, None), w)),
      setPrivateKey = (\<lambda>d k w. (None, w\<lparr>stored_key := k\<rparr>)),
      ParseIPNet = fake_ParseIPNet,
      IPNet_String = fake_IPNet_String,
      UpdateIP = (\<lambda>h d n w. (None, w\<lparr>addresses := addresses w @ [(d, n)]\<rparr>)),
      AddRoute = (\<lambda>h d n w.
        (if (d, n) \<in> set (routes w) then (Some ''file exists'', w)
         else (None, w\<lparr>routes := routes w @ [(d, n)]\<rparr>))),
      json_Marshal = fake_Marshal,
      http_NewRequest = fake_NewRequest,
      client_Do = (\<lambda>req w. (server_reply w, w)),
      json_Unmarshal = fake_Unmarshal,
      newPeerConfig = (\<lambda>pk psk ep ips w.
        ((Some \<lparr>PublicKey = pk, PresharedKey = psk, PeerEndpoint = ep,
                 PeerAllowedIPs = ips\<rparr>, None), w))\<rparr>"

text \<open>
  A host whose device \<open>wg0\<close> has no key yet, and a lease server that answers 200
  with the lease of the scenario of section 8.
\<close>

definition fake_world0 :: fake_world where
  "fake_world0 =
     \<lparr>stored_key = sentinel, generated_key = ''mNb7OIIXTdgW4khM7OFlzJ+UPs7lmcWHV7xjPgakMkQ='',
      start_error = None, addresses = [], routes = [], links_up = [],
      server_reply = (Some \<lparr>StatusCode = 200, Status = ''200 OK'', Body = (lease_body, None)\<rparr>, None)\<rparr>"

definition fake_sys0 :: "fake_world sys" where
  "fake_sys0 = \<lparr>calls = [], world = fake_world0\<rparr>"

definition fake_agent :: Agent where
  "fake_agent =
     \<lparr>device = ''wg0'', pubKey = ''PUB'', privKey = ''PRIV'', netlinkHandle = Some 1,
      stop = Some MakeChan, tundev = Some 2\<rparr>"

text \<open>The same host, with a lease server that answers 500.\<close>

definition fake_world500 :: fake_world where
  "fake_world500 =
     fake_world0\<lparr>server_reply :=
       (Some \<lparr>StatusCode = 500, Status = ''500 Internal Server Error'', Body = ([], None)\<rparr>,
        None)\<rparr>"

text \<open>The same host, with a lease server that answers with the second lease.\<close>

definition fake_world_gaps :: fake_world where
  "fake_world_gaps =
     fake_world0\<lparr>server_reply :=
       (Some \<lparr>StatusCode = 200, Status = ''200 OK'', Body = (lease_body_gaps, None)\<rparr>, None)\<rparr>"

text \<open>A host whose device already has a private key.\<close>

definition fake_world_keyed :: fake_world where
  "fake_world_keyed = fake_world0\<lparr>stored_key := ''SOnMZLyGsWmqbGbIYD1lzVz4MaQp2fUOcLMwbaK4vHU=''\<rparr>"

section \<open>Contracts of the key store\<close>

text \<open>
  Modelled from the spec: the key store and the key generator are collaborators
  outside \<^verbatim>\<open>agent.go\<close>. Section 6 gives the key store as "get/set private key on a
  named device": a read leaves the outside as it is (\<open>getKeys_reads\<close>), and after a
  successful set a read gives the key that was set (\<open>keystore_contract\<close>). The empty
  key means "no identity configured yet" (glossary), so a generator that succeeds
  yields another key (\<open>keygen_contract\<close>).
\<close>

definition getKeys_reads :: "'w env \<Rightarrow> bool" where
  "getKeys_reads env \<longleftrightarrow> (\<forall>d w. snd (getKeys env d w) = w)"

definition keystore_contract :: "'w env \<Rightarrow> bool" where
  "keystore_contract env \<longleftrightarrow>
     (\<forall>d k w. fst (setPrivateKey env d k w) = None \<longrightarrow>
        fst (snd (fst (getKeys env d (snd (setPrivateKey env d k w))))) = k)"

definition keygen_contract :: "'w env \<Rightarrow> bool" where
  "keygen_contract env \<longleftrightarrow>
     (\<forall>w. snd (fst (GeneratePrivateKey env w)) = None \<longrightarrow>
        fst (fst (GeneratePrivateKey env w)) \<noteq> sentinel)"

section \<open>Properties\<close>

lemmas fake_defs =
  fake_env_def fake_sys0_def fake_world0_def fake_agent_def fake_Marshal_def
  fake_NewRequest_def fake_Unmarshal_def lease_body_def lease_body_gaps_def
  lease_response_def lease_response_gaps_def
  fake_ParseIPNet_def fake_IPNet_String_def fake_nets_def

subsection \<open>Splitting on a separator\<close>

lemma length_strings_Split: "length (strings_Split s sep) = count_list s sep + 1"
  by (induction s) (auto split: list.splits)

lemma strings_Split_not_Nil: "strings_Split s sep \<noteq> []"
  by (induction s) (auto split: list.splits)

lemma strings_Join_Split: "strings_Join (strings_Split s sep) sep = s"
proof (induction s)
  case Nil
  show ?case by simp
next
  case (Cons c cs)
  obtain p ps where sp: "strings_Split cs sep = p # ps"
    using strings_Split_not_Nil [of cs sep] by (cases "strings_Split cs sep") auto
  show ?case
  proof (cases "c = sep")
    case True
    with Cons sp show ?thesis by simp
  next
    case False
    with Cons sp show ?thesis by (cases ps) auto
  qed
qed

lemma strings_Split_no_sep: "p \<in> set (strings_Split s sep) \<Longrightarrow> sep \<notin> set p"
proof (induction s arbitrary: p)
  case Nil
  then show ?case by simp
next
  case (Cons c cs)
  then show ?case
    by (auto split: if_splits list.splits)
qed

subsection \<open>The route loop\<close>

lemma addRoutes_append:
  "addRoutesForAllowedIps env a (xs @ ys) s =
     (case addRoutesForAllowedIps env a xs s of
        (None, s') \<Rightarrow> addRoutesForAllowedIps env a ys s'
      | (Some e, s') \<Rightarrow> (Some e, s'))"
proof (induction xs arbitrary: s)
  case Nil
  show ?case by simp
next
  case (Cons x xs)
  show ?case
    by (simp add: Cons.IH Let_def split: prod.splits option.splits)
qed

section \<open>The claims\<close>

text \<open>
  C2. When the lease server answers with a status other than 200,
  \<^verbatim>\<open>GetNewWgLease\<close> returns the error \<^verbatim>\<open>"Response status: "\<close> followed by the
  status text of the response, with the empty peer configuration and the empty list.
  The calls it has made are the HTTP exchange and the close of the body, and nothing
  else: no address is parsed or installed, no route is installed, and the outside is
  as the HTTP exchange left it.
\<close>

theorem GetNewWgLease_rejected:
  assumes "json_Marshal env \<lparr>reqPubKey = pubKey a\<rparr> = (r, None)"
    and "http_NewRequest env ''POST'' (url @ ''/newPeerLease'') r = (Some req0, e0)"
    and "req = Header_Set (Header_Set req0 ''Content-Type'' ''application/json'')
                 ''Authorization'' (''Bearer '' @ tok)"
    and "client_Do env req (world s) = ((Some resp, None), w1)"
    and "StatusCode resp \<noteq> 200"
  shows "GetNewWgLease env a url tok s =
           (Returned (Some zeroPeerConfig, [], Some (''Response status: '' @ Status resp)),
            \<lparr>calls = calls s @ [Call_client_Do req, Call_Body_Close], world = w1\<rparr>)"
  using assms by (simp add: GetNewWgLease_def requestWgConfig_def call_def emit_def Let_def)

theorem GetNewWgLease_rejected_witness:
  "fst (GetNewWgLease fake_env fake_agent ''https://lease.example'' ''tok''
          \<lparr>calls = [], world = fake_world500\<rparr>) =
     Returned (Some zeroPeerConfig, [], Some ''Response status: 500 Internal Server Error'') \<and>
   filter is_Call_UpdateIP
     (calls (snd (GetNewWgLease fake_env fake_agent ''https://lease.example'' ''tok''
                    \<lparr>calls = [], world = fake_world500\<rparr>))) = [] \<and>
   filter is_Call_AddRoute
     (calls (snd (GetNewWgLease fake_env fake_agent ''https://lease.example'' ''tok''
                    \<lparr>calls = [], world = fake_world500\<rparr>))) = [] \<and>
   world (snd (GetNewWgLease fake_env fake_agent ''https://lease.example'' ''tok''
                 \<lparr>calls = [], world = fake_world500\<rparr>)) = fake_world500"
  using GetNewWgLease_rejected
    [of fake_env fake_agent "fst (fake_Marshal \<lparr>reqPubKey = ''PUB''\<rparr>)" "''https://lease.example''"
        "\<lparr>Method = ''POST'', URL = ''https://lease.example/newPeerLease'', Header = Map.empty,
          ReqBody = fst (fake_Marshal \<lparr>reqPubKey = ''PUB''\<rparr>)\<rparr>" None
        _ "''tok''" "\<lparr>calls = [], world = fake_world500\<rparr>"
        "\<lparr>StatusCode = 500, Status = ''500 Internal Server Error'', Body = ([], None)\<rparr>"
        fake_world500]
  by (simp add: fake_env_def fake_agent_def fake_Marshal_def fake_NewRequest_def fake_world500_def)

text \<open>
  C6. When \<^verbatim>\<open>startTunDevice\<close> fails, \<^verbatim>\<open>NewAgent\<close> returns at once, with the
  error \<^verbatim>\<open>"Error starting wg device: <device>: <cause>"\<close>. The only calls made are
  the creation of the netlink handle (part of the struct literal, before the device
  is started) and \<^verbatim>\<open>startTunDevice\<close> itself: the run loop is not started, the link
  is not brought up, no key is read or generated. The agent returned has no stop
  channel, no device handle and no keys.
\<close>

theorem NewAgent_start_failure:
  assumes "NewNetLinkHandle env (world s) = (h, w0)"
    and "startTunDevice env d MakeChan w0 = ((td, Some e), w1)"
  shows "NewAgent env d s =
           ((\<lparr>device = d, pubKey = [], privKey = [], netlinkHandle = h, stop = None,
              tundev = None\<rparr>,
             Some (''Error starting wg device: '' @ d @ '': '' @ e)),
            \<lparr>calls = calls s @ [Call_NewNetLinkHandle, Call_startTunDevice d MakeChan],
             world = w1\<rparr>)"
  using assms by (simp add: NewAgent_def call_def)

theorem NewAgent_start_failure_witness:
  "NewAgent fake_env ''wg0'' \<lparr>calls = [], world = fake_world0\<lparr>start_error := Some ''no tun''\<rparr>\<rparr> =
     ((\<lparr>device = ''wg0'', pubKey = [], privKey = [], netlinkHandle = Some 1, stop = None,
        tundev = None\<rparr>,
       Some ''Error starting wg device: wg0: no tun''),
      \<lparr>calls = [Call_NewNetLinkHandle, Call_startTunDevice ''wg0'' MakeChan],
       world = fake_world0\<lparr>start_error := Some ''no tun''\<rparr>\<rparr>)"
  using NewAgent_start_failure
    [of fake_env "\<lparr>calls = [], world = fake_world0\<lparr>start_error := Some ''no tun''\<rparr>\<rparr>"
        "Some 1" "fake_world0\<lparr>start_error := Some ''no tun''\<rparr>" "''wg0''" None "''no tun''"
        "fake_world0\<lparr>start_error := Some ''no tun''\<rparr>"]
  by (simp add: fake_env_def)

text \<open>
  C9. Whenever \<^verbatim>\<open>GetNewWgLease\<close> returns an error, whichever step failed, the peer
  configuration returned is a pointer to the zero value (not \<^verbatim>\<open>nil\<close>) and the list
  of allowed IPs is empty.
\<close>

theorem GetNewWgLease_error_returns_empty:
  "fst (GetNewWgLease env a url tok s) = Returned (p, ips, Some e) \<Longrightarrow>
     p = Some zeroPeerConfig \<and> ips = []"
  by (auto simp: GetNewWgLease_def Let_def split: prod.splits outcome.splits option.splits)

theorem GetNewWgLease_error_returns_empty_witness:
  "fst (GetNewWgLease fake_env fake_agent ''https://lease.example'' ''tok''
          \<lparr>calls = [], world = fake_world500\<rparr>) =
     Returned (Some zeroPeerConfig, [], Some ''Response status: 500 Internal Server Error'') \<and>
   Some zeroPeerConfig = Some zeroPeerConfig \<and> ([] :: string list) = []"
  using GetNewWgLease_error_returns_empty
    [of fake_env fake_agent "''https://lease.example''" "''tok''"
        "\<lparr>calls = [], world = fake_world500\<rparr>" "Some zeroPeerConfig" "[]"
        "''Response status: 500 Internal Server Error''"]
  by (simp add: GetNewWgLease_def requestWgConfig_def call_def emit_def Let_def
        fake_env_def fake_agent_def fake_Marshal_def fake_NewRequest_def fake_world500_def
        fake_world0_def)

text \<open>
  C10. The error of \<^verbatim>\<open>http.NewRequest\<close> is never examined. Erasing it from what
  \<^verbatim>\<open>http.NewRequest\<close> returns changes nothing in what \<^verbatim>\<open>requestWgConfig\<close> does;
  and when building the request fails (a \<^verbatim>\<open>nil\<close> request with an error), the
  function does not return that error: it goes on to set a header on the
  \<^verbatim>\<open>nil\<close> request, and panics, before any call is made.
\<close>

theorem requestWgConfig_NewRequest_error_ignored:
  "requestWgConfig
     (env\<lparr>http_NewRequest := \<lambda>m u b. (fst (http_NewRequest env m u b), None)\<rparr>) a url tok s =
   requestWgConfig env a url tok s \<and>
   (json_Marshal env \<lparr>reqPubKey = pubKey a\<rparr> = (r, None) \<and>
    http_NewRequest env ''POST'' (url @ ''/newPeerLease'') r = (None, Some e) \<longrightarrow>
      requestWgConfig env a url tok s = (Panicked, s))"
proof
  show "requestWgConfig
     (env\<lparr>http_NewRequest := \<lambda>m u b. (fst (http_NewRequest env m u b), None)\<rparr>) a url tok s =
   requestWgConfig env a url tok s"
  proof (cases "json_Marshal env \<lparr>reqPubKey = pubKey a\<rparr>")
    case m: (Pair r' me)
    show ?thesis
    proof (cases "http_NewRequest env ''POST'' (url @ ''/newPeerLease'') r'")
      case (Pair q qe)
      with m show ?thesis
        by (cases me; cases q)
           (simp_all add: requestWgConfig_def Let_def split: prod.split option.split)
    qed
  qed
next
  show "json_Marshal env \<lparr>reqPubKey = pubKey a\<rparr> = (r, None) \<and>
    http_NewRequest env ''POST'' (url @ ''/newPeerLease'') r = (None, Some e) \<longrightarrow>
      requestWgConfig env a url tok s = (Panicked, s)"
    by (simp add: requestWgConfig_def)
qed

theorem requestWgConfig_NewRequest_error_ignored_witness:
  "fake_Marshal \<lparr>reqPubKey = pubKey fake_agent\<rparr> =
     (fst (fake_Marshal \<lparr>reqPubKey = ''PUB''\<rparr>), None) \<and>
   fake_NewRequest ''POST'' ((''http://lease'' @ [CHR 0x0A]) @ ''/newPeerLease'')
       (fst (fake_Marshal \<lparr>reqPubKey = ''PUB''\<rparr>)) =
     (None, Some ''net/url: invalid control character in URL'') \<and>
   requestWgConfig fake_env fake_agent (''http://lease'' @ [CHR 0x0A]) ''tok'' fake_sys0 =
     (Panicked, fake_sys0)"
  using requestWgConfig_NewRequest_error_ignored
    [of fake_env fake_agent "''http://lease'' @ [CHR 0x0A]" "''tok''" fake_sys0
        "fst (fake_Marshal \<lparr>reqPubKey = ''PUB''\<rparr>)" "''net/url: invalid control character in URL''"]
  by (simp add: fake_env_def fake_agent_def fake_Marshal_def fake_NewRequest_def)

text \<open>
  C5. What \<^verbatim>\<open>requestWgConfig\<close> does is the same for two agents that differ in
  their private key only. Every request that it hands to the HTTP client is the one
  that \<^verbatim>\<open>http.NewRequest\<close> built for the marshalled \<^verbatim>\<open>Request\<close> whose
  \<^verbatim>\<open>PubKey\<close> is the public key of the agent, with the two headers set.
\<close>

theorem requestWgConfig_body_is_public_key:
  "requestWgConfig env (a\<lparr>privKey := k\<rparr>) url tok s = requestWgConfig env a url tok s \<and>
   (\<exists>new. calls (snd (requestWgConfig env a url tok s)) = calls s @ new \<and>
      (\<forall>req. Call_client_Do req \<in> set new \<longrightarrow>
         (\<exists>req0. fst (http_NewRequest env ''POST'' (url @ ''/newPeerLease'')
                        (fst (json_Marshal env \<lparr>reqPubKey = pubKey a\<rparr>))) = Some req0 \<and>
                 req = Header_Set (Header_Set req0 ''Content-Type'' ''application/json'')
                         ''Authorization'' (''Bearer '' @ tok))))"
proof
  show "requestWgConfig env (a\<lparr>privKey := k\<rparr>) url tok s = requestWgConfig env a url tok s"
    by (simp add: requestWgConfig_def)
next
  show "\<exists>new. calls (snd (requestWgConfig env a url tok s)) = calls s @ new \<and>
      (\<forall>req. Call_client_Do req \<in> set new \<longrightarrow>
         (\<exists>req0. fst (http_NewRequest env ''POST'' (url @ ''/newPeerLease'')
                        (fst (json_Marshal env \<lparr>reqPubKey = pubKey a\<rparr>))) = Some req0 \<and>
                 req = Header_Set (Header_Set req0 ''Content-Type'' ''application/json'')
                         ''Authorization'' (''Bearer '' @ tok)))"
    by (auto simp: requestWgConfig_def Let_def call_def emit_def
          split: prod.splits option.splits)
qed

theorem requestWgConfig_body_is_public_key_witness:
  \<open>requestWgConfig fake_env (fake_agent\<lparr>privKey := ''OTHER''\<rparr>) ''https://lease.example'' ''tok''
       fake_sys0 =
     requestWgConfig fake_env fake_agent ''https://lease.example'' ''tok'' fake_sys0 \<and>
   calls (snd (requestWgConfig fake_env fake_agent ''https://lease.example'' ''tok'' fake_sys0)) =
     [Call_client_Do
        \<lparr>Method = ''POST'', URL = ''https://lease.example/newPeerLease'',
         Header = [''Content-Type'' \<mapsto> [''application/json''],
                   ''Authorization'' \<mapsto> [''Bearer tok'']],
         ReqBody = ''{"pubKey":"PUB"}''\<rparr>,
      Call_Body_Close]\<close>
  using requestWgConfig_body_is_public_key
    [where env = fake_env and a = fake_agent and k = "''OTHER''"
       and url = "''https://lease.example''" and tok = "''tok''" and s = fake_sys0]
  by (simp add: requestWgConfig_def Let_def call_def emit_def Header_Set_def fake_defs)

text \<open>
  C4. When \<^verbatim>\<open>GetNewWgLease\<close> returns without error, the list it returns is the
  split of the \<^verbatim>\<open>AllowedIPs\<close> string of the response on commas: it has one entry
  more than the string has commas, joining the entries with commas gives the string
  back (so the order is kept, empty entries too, and nothing is trimmed or filtered),
  and no entry holds a comma. The last call made is \<^verbatim>\<open>newPeerConfig\<close>, with this
  same list.
\<close>

theorem GetNewWgLease_splits_allowed_ips:
  assumes "fst (requestWgConfig env a url tok s) = Returned (resp, e)"
    and "GetNewWgLease env a url tok s = (Returned (peer, ips, None), s')"
  shows "ips = strings_Split (AllowedIPs resp) (CHR '','') \<and>
         length ips = count_list (AllowedIPs resp) (CHR '','') + 1 \<and>
         strings_Join ips (CHR '','') = AllowedIPs resp \<and>
         (\<forall>p \<in> set ips. CHR '','' \<notin> set p) \<and>
         last (calls s') = Call_newPeerConfig (PubKey resp) [] (Endpoint resp) ips"
proof -
  from assms have ips: "ips = strings_Split (AllowedIPs resp) (CHR '','')"
    by (auto simp: GetNewWgLease_def Let_def split: prod.splits outcome.splits option.splits)
  from assms have "last (calls s') =
      Call_newPeerConfig (PubKey resp) [] (Endpoint resp)
        (strings_Split (AllowedIPs resp) (CHR '',''))"
    by (auto simp: GetNewWgLease_def Let_def call_def
          split: prod.splits outcome.splits option.splits)
  with ips show ?thesis
    by (simp add: length_strings_Split strings_Join_Split strings_Split_no_sep)
qed

theorem GetNewWgLease_splits_allowed_ips_witness:
  "fst (requestWgConfig fake_env fake_agent ''https://lease.example'' ''tok''
          \<lparr>calls = [], world = fake_world_gaps\<rparr>) = Returned (lease_response_gaps, None) \<and>
   fst (GetNewWgLease fake_env fake_agent ''https://lease.example'' ''tok''
          \<lparr>calls = [], world = fake_world_gaps\<rparr>) =
     Returned (Some \<lparr>PublicKey = ''abc='', PresharedKey = [], PeerEndpoint = [],
                     PeerAllowedIPs = [''10.0.1.0/24'', [], '' 10.0.2.0/24 '', []]\<rparr>,
               [''10.0.1.0/24'', [], '' 10.0.2.0/24 '', []], None) \<and>
   strings_Split ''10.0.1.0/24,, 10.0.2.0/24 ,'' (CHR '','') =
     [''10.0.1.0/24'', [], '' 10.0.2.0/24 '', []] \<and>
   count_list ''10.0.1.0/24,, 10.0.2.0/24 ,'' (CHR '','') + 1 = 4 \<and>
   strings_Join [''10.0.1.0/24'', [], '' 10.0.2.0/24 '', []] (CHR '','') =
     ''10.0.1.0/24,, 10.0.2.0/24 ,'' \<and>
   last (calls (snd (GetNewWgLease fake_env fake_agent ''https://lease.example'' ''tok''
                       \<lparr>calls = [], world = fake_world_gaps\<rparr>))) =
     Call_newPeerConfig ''abc='' [] [] [''10.0.1.0/24'', [], '' 10.0.2.0/24 '', []]"
  using GetNewWgLease_splits_allowed_ips
    [of fake_env fake_agent "''https://lease.example''" "''tok''"
        "\<lparr>calls = [], world = fake_world_gaps\<rparr>" lease_response_gaps None
        "Some \<lparr>PublicKey = ''abc='', PresharedKey = [], PeerEndpoint = [],
               PeerAllowedIPs = [''10.0.1.0/24'', [], '' 10.0.2.0/24 '', []]\<rparr>"
        "[''10.0.1.0/24'', [], '' 10.0.2.0/24 '', []]"
        "snd (GetNewWgLease fake_env fake_agent ''https://lease.example'' ''tok''
               \<lparr>calls = [], world = fake_world_gaps\<rparr>)"]
  by (simp add: GetNewWgLease_def requestWgConfig_def addIpToDev_def call_def emit_def Let_def
        fake_defs fake_world_gaps_def)

text \<open>
  C7. \<^verbatim>\<open>addRoutesForAllowedIps\<close> handles the prefixes one after the other, in
  the order of the list: a run on \<open>xs @ ys\<close> is the run on \<open>xs\<close>, followed, when that
  one returned no error, by the run on \<open>ys\<close> from the state it reached; when it
  returned an error, this error and this state are the result, so nothing of \<open>ys\<close> is
  parsed or installed and nothing is aggregated. A prefix that does not parse stops
  the loop before any route call for it, and a prefix whose route the kernel refuses
  stops it right after that call, whatever follows in the list.
\<close>

theorem addRoutes_first_failure_aborts:
  "addRoutesForAllowedIps env a (xs @ ys) s =
     (case addRoutesForAllowedIps env a xs s of
        (None, s') \<Rightarrow> addRoutesForAllowedIps env a ys s'
      | (Some e, s') \<Rightarrow> (Some e, s')) \<and>
   (snd (ParseIPNet env y) = Some e \<longrightarrow>
      addRoutesForAllowedIps env a (y # zs) s =
        (Some (''Cannot parse ip: '' @ y @ '': '' @ e),
         \<lparr>calls = calls s @ [Call_ParseIPNet y], world = world s\<rparr>)) \<and>
   (ParseIPNet env y = (dst, None) \<and>
    AddRoute env (netlinkHandle a) (device a) dst (world s) = (Some e, w') \<longrightarrow>
      addRoutesForAllowedIps env a (y # zs) s =
        (Some (''Eror adding route '' @ IPNet_String env dst @ '' via '' @ device a @ '': '' @ e),
         \<lparr>calls = calls s @
            [Call_ParseIPNet y,
             Log (''Adding route: '' @ IPNet_String env dst @ '' on dev '' @ device a @ [CHR 0x0A]),
             Call_AddRoute (device a) dst],
          world = w'\<rparr>))"
proof (intro conjI impI)
  show "addRoutesForAllowedIps env a (xs @ ys) s =
     (case addRoutesForAllowedIps env a xs s of
        (None, s') \<Rightarrow> addRoutesForAllowedIps env a ys s'
      | (Some e, s') \<Rightarrow> (Some e, s'))"
    by (rule addRoutes_append)
next
  assume "snd (ParseIPNet env y) = Some e"
  then show "addRoutesForAllowedIps env a (y # zs) s =
        (Some (''Cannot parse ip: '' @ y @ '': '' @ e),
         \<lparr>calls = calls s @ [Call_ParseIPNet y], world = world s\<rparr>)"
    by (cases "ParseIPNet env y") (simp add: emit_def)
next
  assume "ParseIPNet env y = (dst, None) \<and>
    AddRoute env (netlinkHandle a) (device a) dst (world s) = (Some e, w')"
  then show "addRoutesForAllowedIps env a (y # zs) s =
        (Some (''Eror adding route '' @ IPNet_String env dst @ '' via '' @ device a @ '': '' @ e),
         \<lparr>calls = calls s @
            [Call_ParseIPNet y,
             Log (''Adding route: '' @ IPNet_String env dst @ '' on dev '' @ device a @ [CHR 0x0A]),
             Call_AddRoute (device a) dst],
          world = w'\<rparr>)"
    by (simp add: emit_def call_def Let_def)
qed

theorem addRoutes_first_failure_aborts_witness:
  "addRoutesForAllowedIps fake_env fake_agent [''10.0.1.0/24'', ''bogus'', ''10.0.2.0/24'']
       fake_sys0 =
     (Some ''Cannot parse ip: bogus: invalid CIDR address: bogus'',
      \<lparr>calls =
         [Call_ParseIPNet ''10.0.1.0/24'',
          Log (''Adding route: 10.0.1.0/24 on dev wg0'' @ [CHR 0x0A]),
          Call_AddRoute ''wg0'' (Some (IPNet [10, 0, 1, 0] [255, 255, 255, 0])),
          Call_ParseIPNet ''bogus''],
       world = fake_world0
         \<lparr>routes := [(''wg0'', Some (IPNet [10, 0, 1, 0] [255, 255, 255, 0]))]\<rparr>\<rparr>) \<and>
   snd (ParseIPNet fake_env ''bogus'') = Some ''invalid CIDR address: bogus'' \<and>
   addRoutesForAllowedIps fake_env fake_agent [''bogus'', ''10.0.2.0/24''] fake_sys0 =
     (Some ''Cannot parse ip: bogus: invalid CIDR address: bogus'',
      \<lparr>calls = [Call_ParseIPNet ''bogus''], world = fake_world0\<rparr>) \<and>
   addRoutesForAllowedIps fake_env fake_agent [''10.0.1.0/24'', ''10.0.2.0/24'']
       \<lparr>calls = [],
        world = fake_world0
          \<lparr>routes := [(''wg0'', Some (IPNet [10, 0, 1, 0] [255, 255, 255, 0]))]\<rparr>\<rparr> =
     (Some ''Eror adding route 10.0.1.0/24 via wg0: file exists'',
      \<lparr>calls =
         [Call_ParseIPNet ''10.0.1.0/24'',
          Log (''Adding route: 10.0.1.0/24 on dev wg0'' @ [CHR 0x0A]),
          Call_AddRoute ''wg0'' (Some (IPNet [10, 0, 1, 0] [255, 255, 255, 0]))],
       world = fake_world0
         \<lparr>routes := [(''wg0'', Some (IPNet [10, 0, 1, 0] [255, 255, 255, 0]))]\<rparr>\<rparr>)"
  using addRoutes_first_failure_aborts
    [where env = fake_env and a = fake_agent and xs = "[''10.0.1.0/24'']"
       and ys = "[''bogus'', ''10.0.2.0/24'']" and s = fake_sys0 and y = "''bogus''"
       and e = "''invalid CIDR address: bogus''" and zs = "[''10.0.2.0/24'']" and dst = None
       and w' = fake_world0]
    addRoutes_first_failure_aborts
    [where env = fake_env and a = fake_agent and xs = "[]" and ys = "[]"
       and s = "\<lparr>calls = [],
                 world = fake_world0
                   \<lparr>routes := [(''wg0'', Some (IPNet [10, 0, 1, 0] [255, 255, 255, 0]))]\<rparr>\<rparr>"
       and y = "''10.0.1.0/24''" and e = "''file exists''" and zs = "[''10.0.2.0/24'']"
       and dst = "Some (IPNet [10, 0, 1, 0] [255, 255, 255, 0])"
       and w' = "fake_world0
                   \<lparr>routes := [(''wg0'', Some (IPNet [10, 0, 1, 0] [255, 255, 255, 0]))]\<rparr>"]
  by (simp add: call_def emit_def Let_def fake_defs)

text \<open>
  C8. On a device whose private key is not the empty key, with a key store whose
  reads leave the outside as it is, \<^verbatim>\<open>NewAgent\<close> makes no call to the key generator
  and none to \<^verbatim>\<open>setPrivateKey\<close>: after the link is up it reads the keys twice, and
  the agent holds the pair that the device had. Running the key step (lines 48-72)
  again on the agent and state so obtained only reads twice more: the agent and the
  outside are unchanged.
\<close>

theorem NewAgent_keeps_key:
  assumes "getKeys_reads env"
    and "NewNetLinkHandle env (world s) = (h, w0)"
    and "startTunDevice env d MakeChan w0 = ((td, None), w1)"
    and "EnsureLinkUp env h d w1 = (None, w2)"
    and "fst (getKeys env d w2) = (pub, priv, None)"
    and "priv \<noteq> sentinel"
  shows "NewAgent env d s =
           ((\<lparr>device = d, pubKey = pub, privKey = priv, netlinkHandle = h,
              stop = Some MakeChan, tundev = td\<rparr>, None),
            \<lparr>calls = calls s @
               [Call_NewNetLinkHandle, Call_startTunDevice d MakeChan, Go_tundev_Run td,
                Call_EnsureLinkUp d, Call_getKeys d, Call_getKeys d],
             world = w2\<rparr>) \<and>
         NewAgent_keys env d (fst (fst (NewAgent env d s))) (snd (NewAgent env d s)) =
           ((fst (fst (NewAgent env d s)), None),
            \<lparr>calls = calls (snd (NewAgent env d s)) @ [Call_getKeys d, Call_getKeys d],
             world = world (snd (NewAgent env d s))\<rparr>)"
proof -
  from assms(1) have rd: "snd (getKeys env d w2) = w2"
    by (simp add: getKeys_reads_def)
  with assms(5) have gk: "getKeys env d w2 = ((pub, priv, None), w2)"
    by (metis prod.collapse)
  have keys: "NewAgent_keys env d b \<lparr>calls = cs, world = w2\<rparr> =
      ((b\<lparr>pubKey := pub, privKey := priv\<rparr>, None),
       \<lparr>calls = cs @ [Call_getKeys d, Call_getKeys d], world = w2\<rparr>)" for b cs
    using gk assms(6) by (simp add: NewAgent_keys_def call_def)
  have new: "NewAgent env d s =
           ((\<lparr>device = d, pubKey = pub, privKey = priv, netlinkHandle = h,
              stop = Some MakeChan, tundev = td\<rparr>, None),
            \<lparr>calls = calls s @
               [Call_NewNetLinkHandle, Call_startTunDevice d MakeChan, Go_tundev_Run td,
                Call_EnsureLinkUp d, Call_getKeys d, Call_getKeys d],
             world = w2\<rparr>)"
    using assms(2,3,4) by (simp add: NewAgent_def call_def emit_def Let_def keys)
  show ?thesis
    by (simp add: new keys)
qed

theorem NewAgent_keeps_key_witness:
  "getKeys_reads fake_env \<and>
   ''SOnMZLyGsWmqbGbIYD1lzVz4MaQp2fUOcLMwbaK4vHU='' \<noteq> sentinel \<and>
   NewAgent fake_env ''wg0'' \<lparr>calls = [], world = fake_world_keyed\<rparr> =
     ((\<lparr>device = ''wg0'',
        pubKey = ''pub-of-SOnMZLyGsWmqbGbIYD1lzVz4MaQp2fUOcLMwbaK4vHU='',
        privKey = ''SOnMZLyGsWmqbGbIYD1lzVz4MaQp2fUOcLMwbaK4vHU='',
        netlinkHandle = Some 1, stop = Some MakeChan, tundev = Some 2\<rparr>, None),
      \<lparr>calls =
         [Call_NewNetLinkHandle, Call_startTunDevice ''wg0'' MakeChan, Go_tundev_Run (Some 2),
          Call_EnsureLinkUp ''wg0'', Call_getKeys ''wg0'', Call_getKeys ''wg0''],
       world = fake_world_keyed\<lparr>links_up := [''wg0'']\<rparr>\<rparr>)"
  using NewAgent_keeps_key
    [where env = fake_env and s = "\<lparr>calls = [], world = fake_world_keyed\<rparr>" and h = "Some 1"
       and ?w0.0 = fake_world_keyed and d = "''wg0''" and td = "Some 2"
       and ?w1.0 = fake_world_keyed and ?w2.0 = "fake_world_keyed\<lparr>links_up := [''wg0'']\<rparr>"
       and pub = "''pub-of-SOnMZLyGsWmqbGbIYD1lzVz4MaQp2fUOcLMwbaK4vHU=''"
       and priv = "''SOnMZLyGsWmqbGbIYD1lzVz4MaQp2fUOcLMwbaK4vHU=''"]
  by (simp add: getKeys_reads_def sentinel_def fake_env_def fake_world_keyed_def fake_world0_def)

text \<open>
  C3. On a device whose private key is the empty key, with a key store that keeps
  what is set and a generator that does not yield the empty key, a successful
  \<^verbatim>\<open>NewAgent\<close> calls the generator exactly once, installs the generated key on the
  device with \<^verbatim>\<open>setPrivateKey\<close> before it reads the keys again, and holds the key
  read then: it is the generated key, it is not the empty key, and it is the key that
  the device gives on a later read.
\<close>

theorem NewAgent_generates_key:
  assumes "keystore_contract env" and "keygen_contract env" and "getKeys_reads env"
    and "NewNetLinkHandle env (world s) = (h, w0)"
    and "startTunDevice env d MakeChan w0 = ((td, None), w1)"
    and "EnsureLinkUp env h d w1 = (None, w2)"
    and "fst (getKeys env d w2) = (pub0, sentinel, None)"
    and "NewAgent env d s = ((a, None), s')"
  shows "\<exists>k. fst (GeneratePrivateKey env w2) = (k, None) \<and>
           calls s' = calls s @
             [Call_NewNetLinkHandle, Call_startTunDevice d MakeChan, Go_tundev_Run td,
              Call_EnsureLinkUp d, Call_getKeys d, Call_GeneratePrivateKey,
              Call_setPrivateKey d k, Call_getKeys d] \<and>
           privKey a = k \<and> privKey a \<noteq> sentinel \<and>
           fst (snd (fst (getKeys env d (world s')))) = privKey a"
proof -
  from assms(3) have rd: "snd (getKeys env d w) = w" for w
    by (simp add: getKeys_reads_def)
  with assms(7) have gk: "getKeys env d w2 = ((pub0, sentinel, None), w2)"
    by (metis prod.collapse)
  obtain k ge w3 where gen: "GeneratePrivateKey env w2 = ((k, ge), w3)"
    by (metis prod.collapse)
  obtain se w4 where set: "setPrivateKey env d k w3 = (se, w4)"
    by (metis prod.collapse)
  obtain pub priv re where get: "getKeys env d w4 = ((pub, priv, re), w4)"
    using rd [of w4] by (metis prod.collapse)
  from assms(8) have ok: "ge = None \<and> se = None \<and> re = None \<and> privKey a = priv \<and>
      calls s' = calls s @
             [Call_NewNetLinkHandle, Call_startTunDevice d MakeChan, Go_tundev_Run td,
              Call_EnsureLinkUp d, Call_getKeys d, Call_GeneratePrivateKey,
              Call_setPrivateKey d k, Call_getKeys d] \<and> world s' = w4"
    using assms(4,5,6) gk gen set get
    by (auto simp: NewAgent_def NewAgent_keys_def SetPrivKey_def call_def emit_def Let_def
          split: option.splits)
  from ok gen assms(2) have ks: "k \<noteq> sentinel"
    by (auto simp: keygen_contract_def dest: spec [of _ w2])
  from assms(1) have "fst (setPrivateKey env d k w3) = None \<longrightarrow>
      fst (snd (fst (getKeys env d (snd (setPrivateKey env d k w3))))) = k"
    by (simp add: keystore_contract_def)
  with ok set get have "priv = k"
    by simp
  with ok ks gen get show ?thesis
    by simp
qed

theorem NewAgent_generates_key_witness:
  "keystore_contract fake_env \<and> keygen_contract fake_env \<and> getKeys_reads fake_env \<and>
   fst (getKeys fake_env ''wg0'' (fake_world0\<lparr>links_up := [''wg0'']\<rparr>)) =
     (''pub-of-'' @ sentinel, sentinel, None) \<and>
   fst (NewAgent fake_env ''wg0'' fake_sys0) =
     (\<lparr>device = ''wg0'',
       pubKey = ''pub-of-mNb7OIIXTdgW4khM7OFlzJ+UPs7lmcWHV7xjPgakMkQ='',
       privKey = ''mNb7OIIXTdgW4khM7OFlzJ+UPs7lmcWHV7xjPgakMkQ='',
       netlinkHandle = Some 1, stop = Some MakeChan, tundev = Some 2\<rparr>, None) \<and>
   calls (snd (NewAgent fake_env ''wg0'' fake_sys0)) =
     [Call_NewNetLinkHandle, Call_startTunDevice ''wg0'' MakeChan, Go_tundev_Run (Some 2),
      Call_EnsureLinkUp ''wg0'', Call_getKeys ''wg0'', Call_GeneratePrivateKey,
      Call_setPrivateKey ''wg0'' ''mNb7OIIXTdgW4khM7OFlzJ+UPs7lmcWHV7xjPgakMkQ='',
      Call_getKeys ''wg0''] \<and>
   stored_key (world (snd (NewAgent fake_env ''wg0'' fake_sys0))) =
     ''mNb7OIIXTdgW4khM7OFlzJ+UPs7lmcWHV7xjPgakMkQ=''"
proof -
  have ks: "keystore_contract fake_env"
    by (simp add: keystore_contract_def fake_env_def)
  have kg: "keygen_contract fake_env"
    by (simp add: keygen_contract_def fake_env_def)
  have rd: "getKeys_reads fake_env"
    by (simp add: getKeys_reads_def fake_env_def)
  have h1: "NewNetLinkHandle fake_env (world fake_sys0) = (Some 1, fake_world0)"
    by (simp add: fake_env_def fake_sys0_def)
  have h2: "startTunDevice fake_env ''wg0'' MakeChan fake_world0 = ((Some 2, None), fake_world0)"
    by (simp add: fake_env_def fake_world0_def)
  have h3: "EnsureLinkUp fake_env (Some 1) ''wg0'' fake_world0 =
      (None, fake_world0\<lparr>links_up := [''wg0'']\<rparr>)"
    by (simp add: fake_env_def fake_world0_def)
  have h4: "fst (getKeys fake_env ''wg0'' (fake_world0\<lparr>links_up := [''wg0'']\<rparr>)) =
      (''pub-of-'' @ sentinel, sentinel, None)"
    by (simp add: fake_env_def fake_world0_def)
  have run: "NewAgent fake_env ''wg0'' fake_sys0 =
     ((\<lparr>device = ''wg0'',
        pubKey = ''pub-of-mNb7OIIXTdgW4khM7OFlzJ+UPs7lmcWHV7xjPgakMkQ='',
        privKey = ''mNb7OIIXTdgW4khM7OFlzJ+UPs7lmcWHV7xjPgakMkQ='',
        netlinkHandle = Some 1, stop = Some MakeChan, tundev = Some 2\<rparr>, None),
      \<lparr>calls =
         [Call_NewNetLinkHandle, Call_startTunDevice ''wg0'' MakeChan, Go_tundev_Run (Some 2),
          Call_EnsureLinkUp ''wg0'', Call_getKeys ''wg0'', Call_GeneratePrivateKey,
          Call_setPrivateKey ''wg0'' ''mNb7OIIXTdgW4khM7OFlzJ+UPs7lmcWHV7xjPgakMkQ='',
          Call_getKeys ''wg0''],
       world = fake_world0
         \<lparr>stored_key := ''mNb7OIIXTdgW4khM7OFlzJ+UPs7lmcWHV7xjPgakMkQ='',
          links_up := [''wg0'']\<rparr>\<rparr>)"
    by (simp add: NewAgent_def NewAgent_keys_def SetPrivKey_def call_def emit_def Let_def
          sentinel_def fake_env_def fake_sys0_def fake_world0_def)
  from NewAgent_generates_key [OF ks kg rd h1 h2 h3 h4 run]
  show ?thesis
    by (simp add: ks kg rd h4 run)
qed

text \<open>
  C1. In the scenario of the specification (the lease server returns IP
  \<^verbatim>\<open>10.0.0.5/32\<close>, allowed IPs \<^verbatim>\<open>10.0.1.0/24,10.0.2.0/24\<close>, public key \<^verbatim>\<open>abc=\<close> and
  endpoint \<^verbatim>\<open>1.2.3.4:51820\<close>), \<^verbatim>\<open>GetNewWgLease\<close> assigns \<^verbatim>\<open>10.0.0.5/32\<close> to the
  device and returns the peer configuration that \<^verbatim>\<open>newPeerConfig\<close> builds from the
  public key, the empty pre-shared key, the endpoint and the two prefixes, together
  with the list of the two prefixes. It installs no route: the routes for the two
  prefixes are installed, in this order, by \<^verbatim>\<open>addRoutesForAllowedIps\<close> when it is
  called with the list returned.
\<close>

theorem GetNewWgLease_scenario:
  assumes "requestWgConfig env a url tok s = (Returned (lease_response, None), s1)"
    and "ParseIPNet env ''10.0.0.5/32'' = (n, None)"
    and "UpdateIP env (netlinkHandle a) (device a) n (world s1) = (None, w2)"
    and "newPeerConfig env ''abc='' [] ''1.2.3.4:51820'' [''10.0.1.0/24'', ''10.0.2.0/24''] w2 =
           ((peer, None), w3)"
    and "ParseIPNet env ''10.0.1.0/24'' = (n1, None)"
    and "AddRoute env (netlinkHandle a) (device a) n1 w3 = (None, w4)"
    and "ParseIPNet env ''10.0.2.0/24'' = (n2, None)"
    and "AddRoute env (netlinkHandle a) (device a) n2 w4 = (None, w5)"
  shows "GetNewWgLease env a url tok s =
           (Returned (peer, [''10.0.1.0/24'', ''10.0.2.0/24''], None),
            \<lparr>calls = calls s1 @
               [Call_ParseIPNet ''10.0.0.5/32'',
                Log (''Configuring offered ip: '' @ IPNet_String env n @ '' on dev: '' @
                     device a @ [CHR 0x0A]),
                Call_UpdateIP (device a) n,
                Call_newPeerConfig ''abc='' [] ''1.2.3.4:51820'' [''10.0.1.0/24'', ''10.0.2.0/24'']],
             world = w3\<rparr>) \<and>
         filter is_Call_AddRoute (calls (snd (GetNewWgLease env a url tok s))) =
           filter is_Call_AddRoute (calls s1) \<and>
         addRoutesForAllowedIps env a [''10.0.1.0/24'', ''10.0.2.0/24'']
             (snd (GetNewWgLease env a url tok s)) =
           (None,
            \<lparr>calls = calls (snd (GetNewWgLease env a url tok s)) @
               [Call_ParseIPNet ''10.0.1.0/24'',
                Log (''Adding route: '' @ IPNet_String env n1 @ '' on dev '' @ device a @ [CHR 0x0A]),
                Call_AddRoute (device a) n1,
                Call_ParseIPNet ''10.0.2.0/24'',
                Log (''Adding route: '' @ IPNet_String env n2 @ '' on dev '' @ device a @ [CHR 0x0A]),
                Call_AddRoute (device a) n2],
             world = w5\<rparr>)"
proof -
  have lease: "GetNewWgLease env a url tok s =
           (Returned (peer, [''10.0.1.0/24'', ''10.0.2.0/24''], None),
            \<lparr>calls = calls s1 @
               [Call_ParseIPNet ''10.0.0.5/32'',
                Log (''Configuring offered ip: '' @ IPNet_String env n @ '' on dev: '' @
                     device a @ [CHR 0x0A]),
                Call_UpdateIP (device a) n,
                Call_newPeerConfig ''abc='' [] ''1.2.3.4:51820'' [''10.0.1.0/24'', ''10.0.2.0/24'']],
             world = w3\<rparr>)"
    using assms(1-4)
    by (simp add: GetNewWgLease_def addIpToDev_def lease_response_def call_def emit_def Let_def)
  have routes: "addRoutesForAllowedIps env a [''10.0.1.0/24'', ''10.0.2.0/24''] st =
           (None,
            \<lparr>calls = calls st @
               [Call_ParseIPNet ''10.0.1.0/24'',
                Log (''Adding route: '' @ IPNet_String env n1 @ '' on dev '' @ device a @ [CHR 0x0A]),
                Call_AddRoute (device a) n1,
                Call_ParseIPNet ''10.0.2.0/24'',
                Log (''Adding route: '' @ IPNet_String env n2 @ '' on dev '' @ device a @ [CHR 0x0A]),
                Call_AddRoute (device a) n2],
             world = w5\<rparr>)" if "world st = w3" for st
    using assms(5-8) that by (simp add: call_def emit_def Let_def)
  have no_route: "filter is_Call_AddRoute (calls (snd (GetNewWgLease env a url tok s))) =
           filter is_Call_AddRoute (calls s1)"
    by (simp add: lease)
  have "world (snd (GetNewWgLease env a url tok s)) = w3"
    by (simp add: lease)
  then show ?thesis
    using lease no_route routes by blast
qed

theorem GetNewWgLease_scenario_witness:
  "fst (requestWgConfig fake_env fake_agent ''https://lease.example'' ''tok'' fake_sys0) =
     Returned (lease_response, None) \<and>
   fst (GetNewWgLease fake_env fake_agent ''https://lease.example'' ''tok'' fake_sys0) =
     Returned (Some \<lparr>PublicKey = ''abc='', PresharedKey = [], PeerEndpoint = ''1.2.3.4:51820'',
                     PeerAllowedIPs = [''10.0.1.0/24'', ''10.0.2.0/24'']\<rparr>,
               [''10.0.1.0/24'', ''10.0.2.0/24''], None) \<and>
   addRoutesForAllowedIps fake_env fake_agent [''10.0.1.0/24'', ''10.0.2.0/24'']
       (snd (GetNewWgLease fake_env fake_agent ''https://lease.example'' ''tok'' fake_sys0)) =
     (None,
      \<lparr>calls =
         calls (snd (GetNewWgLease fake_env fake_agent ''https://lease.example'' ''tok'' fake_sys0)) @
         [Call_ParseIPNet ''10.0.1.0/24'',
          Log (''Adding route: 10.0.1.0/24 on dev wg0'' @ [CHR 0x0A]),
          Call_AddRoute ''wg0'' (Some (IPNet [10, 0, 1, 0] [255, 255, 255, 0])),
          Call_ParseIPNet ''10.0.2.0/24'',
          Log (''Adding route: 10.0.2.0/24 on dev wg0'' @ [CHR 0x0A]),
          Call_AddRoute ''wg0'' (Some (IPNet [10, 0, 2, 0] [255, 255, 255, 0]))],
       world = fake_world0
         \<lparr>addresses := [(''wg0'', Some (IPNet [10, 0, 0, 5] [255, 255, 255, 255]))],
          routes := [(''wg0'', Some (IPNet [10, 0, 1, 0] [255, 255, 255, 0])),
                     (''wg0'', Some (IPNet [10, 0, 2, 0] [255, 255, 255, 0]))]\<rparr>\<rparr>)"
proof -
  have h1: "requestWgConfig fake_env fake_agent ''https://lease.example'' ''tok'' fake_sys0 =
      (Returned (lease_response, None),
       snd (requestWgConfig fake_env fake_agent ''https://lease.example'' ''tok'' fake_sys0))"
    by (simp add: requestWgConfig_def call_def emit_def Let_def fake_defs)
  have w1: "world (snd (requestWgConfig fake_env fake_agent ''https://lease.example'' ''tok''
                          fake_sys0)) = fake_world0"
    by (simp add: requestWgConfig_def call_def emit_def Let_def fake_defs)
  have h2: "ParseIPNet fake_env ''10.0.0.5/32'' = (Some (IPNet [10, 0, 0, 5] [255, 255, 255, 255]), None)"
    by (simp add: fake_defs)
  have h3: "UpdateIP fake_env (netlinkHandle fake_agent) (device fake_agent)
              (Some (IPNet [10, 0, 0, 5] [255, 255, 255, 255]))
              (world (snd (requestWgConfig fake_env fake_agent ''https://lease.example'' ''tok''
                             fake_sys0))) =
            (None, fake_world0\<lparr>addresses := [(''wg0'', Some (IPNet [10, 0, 0, 5] [255, 255, 255, 255]))]\<rparr>)"
    unfolding w1 by (simp add: fake_defs)
  have h4: "newPeerConfig fake_env ''abc='' [] ''1.2.3.4:51820'' [''10.0.1.0/24'', ''10.0.2.0/24'']
              (fake_world0\<lparr>addresses := [(''wg0'', Some (IPNet [10, 0, 0, 5] [255, 255, 255, 255]))]\<rparr>) =
            ((Some \<lparr>PublicKey = ''abc='', PresharedKey = [], PeerEndpoint = ''1.2.3.4:51820'',
                     PeerAllowedIPs = [''10.0.1.0/24'', ''10.0.2.0/24'']\<rparr>, None),
             fake_world0\<lparr>addresses := [(''wg0'', Some (IPNet [10, 0, 0, 5] [255, 255, 255, 255]))]\<rparr>)"
    by (simp add: fake_defs)
  have h5: "ParseIPNet fake_env ''10.0.1.0/24'' = (Some (IPNet [10, 0, 1, 0] [255, 255, 255, 0]), None)"
    by (simp add: fake_defs)
  have h6: "AddRoute fake_env (netlinkHandle fake_agent) (device fake_agent)
              (Some (IPNet [10, 0, 1, 0] [255, 255, 255, 0]))
              (fake_world0\<lparr>addresses := [(''wg0'', Some (IPNet [10, 0, 0, 5] [255, 255, 255, 255]))]\<rparr>) =
            (None, fake_world0
               \<lparr>addresses := [(''wg0'', Some (IPNet [10, 0, 0, 5] [255, 255, 255, 255]))],
                routes := [(''wg0'', Some (IPNet [10, 0, 1, 0] [255, 255, 255, 0]))]\<rparr>)"
    by (simp add: fake_defs)
  have h7: "ParseIPNet fake_env ''10.0.2.0/24'' = (Some (IPNet [10, 0, 2, 0] [255, 255, 255, 0]), None)"
    by (simp add: fake_defs)
  have h8: "AddRoute fake_env (netlinkHandle fake_agent) (device fake_agent)
              (Some (IPNet [10, 0, 2, 0] [255, 255, 255, 0]))
              (fake_world0
               \<lparr>addresses := [(''wg0'', Some (IPNet [10, 0, 0, 5] [255, 255, 255, 255]))],
                routes := [(''wg0'', Some (IPNet [10, 0, 1, 0] [255, 255, 255, 0]))]\<rparr>) =
            (None, fake_world0
               \<lparr>addresses := [(''wg0'', Some (IPNet [10, 0, 0, 5] [255, 255, 255, 255]))],
                routes := [(''wg0'', Some (IPNet [10, 0, 1, 0] [255, 255, 255, 0])),
                           (''wg0'', Some (IPNet [10, 0, 2, 0] [255, 255, 255, 0]))]\<rparr>)"
    by (simp add: fake_defs)
  have str1: "IPNet_String fake_env (Some (IPNet [10, 0, 1, 0] [255, 255, 255, 0])) = ''10.0.1.0/24''"
    by (simp add: fake_defs)
  have str2: "IPNet_String fake_env (Some (IPNet [10, 0, 2, 0] [255, 255, 255, 0])) = ''10.0.2.0/24''"
    by (simp add: fake_defs)
  have dev: "device fake_agent = ''wg0''"
    by (simp add: fake_agent_def)
  note run = GetNewWgLease_scenario [OF h1 h2 h3 h4 h5 h6 h7 h8]
  have c1: "fst (requestWgConfig fake_env fake_agent ''https://lease.example'' ''tok'' fake_sys0) =
      Returned (lease_response, None)"
    using h1 by (metis fst_conv)
  have c2: "fst (GetNewWgLease fake_env fake_agent ''https://lease.example'' ''tok'' fake_sys0) =
     Returned (Some \<lparr>PublicKey = ''abc='', PresharedKey = [], PeerEndpoint = ''1.2.3.4:51820'',
                     PeerAllowedIPs = [''10.0.1.0/24'', ''10.0.2.0/24'']\<rparr>,
               [''10.0.1.0/24'', ''10.0.2.0/24''], None)"
    using run [THEN conjunct1] by simp
  from run [THEN conjunct2, THEN conjunct2] c1 c2 show ?thesis
    by (simp add: str1 [simplified] str2 dev del: addRoutesForAllowedIps.simps)
qed

text \<open>
  The claim C1 as it is written fails on the scenario: \<^verbatim>\<open>GetNewWgLease\<close> returns
  the lease, the address is on the device, and no route has been asked for or
  installed.
\<close>

theorem GetNewWgLease_installs_no_route:
  "fst (GetNewWgLease fake_env fake_agent ''https://lease.example'' ''tok'' fake_sys0) =
     Returned (Some \<lparr>PublicKey = ''abc='', PresharedKey = [], PeerEndpoint = ''1.2.3.4:51820'',
                     PeerAllowedIPs = [''10.0.1.0/24'', ''10.0.2.0/24'']\<rparr>,
               [''10.0.1.0/24'', ''10.0.2.0/24''], None) \<and>
   filter is_Call_AddRoute
     (calls (snd (GetNewWgLease fake_env fake_agent ''https://lease.example'' ''tok'' fake_sys0))) =
     [] \<and>
   routes (world (snd (GetNewWgLease fake_env fake_agent ''https://lease.example'' ''tok''
                         fake_sys0))) = [] \<and>
   addresses (world (snd (GetNewWgLease fake_env fake_agent ''https://lease.example'' ''tok''
                            fake_sys0))) =
     [(''wg0'', Some (IPNet [10, 0, 0, 5] [255, 255, 255, 255]))]"
  by (simp add: GetNewWgLease_def requestWgConfig_def addIpToDev_def call_def emit_def Let_def
        fake_defs)

end
